theory Spec2Isabelle
  imports Main
begin

section \<open>Python and numpy primitives used by \<open>app.py\<close>\<close>

text \<open>
  The computational pieces of \<open>src/app.py\<close> are \<open>get_lcm\<close> (lines 37-40),
  \<open>stp_product_stepwise\<close> (lines 43-63), \<open>stp_addition_stepwise\<close> (lines 66-87) and the
  inline matrix addition of Mode B (lines 295-296 and 315-325). Dimensions are Python
  integers (\<open>int\<close>); every place where Python or numpy can raise is a branch returning
  \<open>Inl\<close> of the exception.
\<close>

datatype py_error = ZeroDivisionError | ValueError

text \<open>Sequencing of statements that may raise: the first exception ends the function.\<close>

fun and_then :: "py_error + 'a \<Rightarrow> ('a \<Rightarrow> py_error + 'b) \<Rightarrow> py_error + 'b" where
  "and_then (Inl e) f = Inl e"
| "and_then (Inr x) f = f x"

text \<open>Python's \<open>a // b\<close> on integers: floor division, \<open>ZeroDivisionError\<close> when \<open>b == 0\<close>.\<close>

definition py_floordiv :: "int \<Rightarrow> int \<Rightarrow> py_error + int" where
  "py_floordiv a b = (if b = 0 then Inl ZeroDivisionError else Inr (a div b))"

subsection \<open>Two-dimensional numpy arrays\<close>

text \<open>
  A 2-D \<open>ndarray\<close>: its shape \<open>(shape0, shape1)\<close> and its rows. The shape is kept
  beside the rows because numpy has arrays of shape \<open>(0, n)\<close> and \<open>(m, 0)\<close>.
  The entries range over a commutative ring \<open>'a\<close>: Python's integers (\<open>int\<close>) as
  well as numpy's fixed-width integers, whose \<open>+\<close> and \<open>*\<close> wrap around.
\<close>

datatype 'a ndarray = NDArray (shape0: nat) (shape1: nat) (cells: "'a list list")

definition wf_ndarray :: "'a ndarray \<Rightarrow> bool" where
  "wf_ndarray A \<longleftrightarrow>
     length (cells A) = shape0 A \<and> (\<forall>r \<in> set (cells A). length r = shape1 A)"

text \<open>\<open>A[i, j]\<close>, read only inside the shape.\<close>

definition entry :: "'a ndarray \<Rightarrow> nat \<Rightarrow> nat \<Rightarrow> 'a" where
  "entry A i j = cells A ! i ! j"

text \<open>The array of shape \<open>(m, n)\<close> whose entry \<open>(i, j)\<close> is \<open>f i j\<close>.\<close>

definition tabulate :: "nat \<Rightarrow> nat \<Rightarrow> (nat \<Rightarrow> nat \<Rightarrow> 'a) \<Rightarrow> 'a ndarray" where
  "tabulate m n f = NDArray m n (map (\<lambda>i. map (\<lambda>j. f i j) [0..<n]) [0..<m])"

text \<open>\<open>np.eye(N, dtype=int)\<close>; a negative \<open>N\<close> raises \<open>ValueError\<close>.\<close>

definition np_eye :: "int \<Rightarrow> py_error + ('a::comm_ring_1) ndarray" where
  "np_eye N = (if N < 0 then Inl ValueError
               else Inr (tabulate (nat N) (nat N) (\<lambda>i j. if i = j then 1 else 0)))"

text \<open>\<open>np.ones((r, c), dtype=int)\<close>; a negative dimension raises \<open>ValueError\<close>.\<close>

definition np_ones :: "int \<Rightarrow> int \<Rightarrow> py_error + ('a::comm_ring_1) ndarray" where
  "np_ones r c = (if r < 0 \<or> c < 0 then Inl ValueError
                  else Inr (tabulate (nat r) (nat c) (\<lambda>i j. 1)))"

text \<open>
  \<open>np.kron(A, B)\<close> on 2-D arrays: shape \<open>(rA * rB, cA * cB)\<close>, and the entry at
  \<open>(i, j)\<close> is \<open>A[i // rB, j // cB] * B[i % rB, j % cB]\<close>.
\<close>

definition np_kron :: "('a::comm_ring_1) ndarray \<Rightarrow> 'a ndarray \<Rightarrow> 'a ndarray" where
  "np_kron A B =
     tabulate (shape0 A * shape0 B) (shape1 A * shape1 B)
       (\<lambda>i j. entry A (i div shape0 B) (j div shape1 B)
              * entry B (i mod shape0 B) (j mod shape1 B))"

text \<open>
  \<open>np.dot(A, B)\<close> on 2-D arrays: matrix multiplication; \<open>ValueError\<close> when the
  column count of \<open>A\<close> differs from the row count of \<open>B\<close>.
\<close>

definition np_dot :: "('a::comm_ring_1) ndarray \<Rightarrow> 'a ndarray \<Rightarrow> py_error + 'a ndarray" where
  "np_dot A B =
     (if shape1 A \<noteq> shape0 B then Inl ValueError
      else Inr (tabulate (shape0 A) (shape1 B)
                  (\<lambda>i j. sum_list (map (\<lambda>k. entry A i k * entry B k j) [0..<shape1 A]))))"

text \<open>
  \<open>A + B\<close> on 2-D arrays, with numpy's broadcasting: along each axis the two
  lengths are equal or one of them is 1 (that operand is then repeated along the axis);
  anything else raises \<open>ValueError\<close>.
\<close>

definition broadcast_dim :: "nat \<Rightarrow> nat \<Rightarrow> nat option" where
  "broadcast_dim d1 d2 =
     (if d1 = d2 then Some d1
      else if d1 = 1 then Some d2
      else if d2 = 1 then Some d1
      else None)"

definition np_add :: "('a::comm_ring_1) ndarray \<Rightarrow> 'a ndarray \<Rightarrow> py_error + 'a ndarray" where
  "np_add A B =
     (case broadcast_dim (shape0 A) (shape0 B) of
        None \<Rightarrow> Inl ValueError
      | Some m \<Rightarrow>
         (case broadcast_dim (shape1 A) (shape1 B) of
            None \<Rightarrow> Inl ValueError
          | Some n \<Rightarrow>
             Inr (tabulate m n
                   (\<lambda>i j. entry A (if shape0 A = 1 then 0 else i) (if shape1 A = 1 then 0 else j)
                        + entry B (if shape0 B = 1 then 0 else i) (if shape1 B = 1 then 0 else j)))))"

section \<open>The core functions of \<open>app.py\<close>\<close>

text \<open>
  \<open>get_lcm\<close> (lines 37-40). \<open>math.gcd\<close> is the non-negative greatest common divisor
  of the absolute values, which is \<open>gcd\<close> on \<open>int\<close>.
\<close>

definition get_lcm :: "int \<Rightarrow> int \<Rightarrow> py_error + int" where
  "get_lcm a b =
     (if a = 0 \<or> b = 0 then Inr 0
      else py_floordiv \<bar>a * b\<bar> (gcd a b))"

text \<open>
  The reconciliation of two dimensions, written three times in the source with the same
  three statements (lines 47-49, lines 70-72, and lines 295-296 with 315-316):
  \<open>L = get_lcm(n, p); alpha = L // n; beta = L // p\<close>.
\<close>

definition reconcile :: "int \<Rightarrow> int \<Rightarrow> py_error + (int \<times> int \<times> int)" where
  "reconcile n p =
     and_then (get_lcm n p) (\<lambda>L.
     and_then (py_floordiv L n) (\<lambda>alpha.
     and_then (py_floordiv L p) (\<lambda>beta.
       Inr (L, alpha, beta))))"

text \<open>
  The dictionary returned by \<open>stp_product_stepwise\<close> (lines 60-63). Its keys
  \<open>LCM\<close>, \<open>alpha\<close>, \<open>beta\<close> and \<open>Result\<close> also occur in the dictionary of
  \<open>stp_addition_stepwise\<close>; here they carry the suffix \<open>_mul\<close>, there \<open>_add\<close>.
\<close>

record 'a product_steps =
  LCM_mul :: int
  alpha_mul :: int
  beta_mul :: int
  A_kron :: "'a ndarray"
  B_kron :: "'a ndarray"
  Result_mul :: "'a ndarray"

text \<open>\<open>stp_product_stepwise\<close> (lines 43-63).\<close>

definition stp_product_stepwise ::
  "('a::comm_ring_1) ndarray \<Rightarrow> 'a ndarray \<Rightarrow> py_error + 'a product_steps" where
  "stp_product_stepwise A B =
     (let n = int (shape1 A); p = int (shape0 B) in
      and_then (reconcile n p) (\<lambda>(L, al, be).
      and_then (np_eye al) (\<lambda>id_alpha.
      and_then (np_eye be) (\<lambda>id_beta.
        let Ak = np_kron A id_alpha; Bk = np_kron B id_beta in
        and_then (np_dot Ak Bk) (\<lambda>R.
          Inr \<lparr>LCM_mul = L, alpha_mul = al, beta_mul = be,
               A_kron = Ak, B_kron = Bk, Result_mul = R\<rparr>)))))"

text \<open>
  The dictionary returned by \<open>stp_addition_stepwise\<close> (lines 84-87).
\<close>

record 'a addition_steps =
  LCM_add :: int
  alpha_add :: int
  beta_add :: int
  V1_kron :: "'a ndarray"
  V2_kron :: "'a ndarray"
  Result_add :: "'a ndarray"

text \<open>\<open>stp_addition_stepwise\<close> (lines 66-87).\<close>

definition stp_addition_stepwise ::
  "('a::comm_ring_1) ndarray \<Rightarrow> 'a ndarray \<Rightarrow> py_error + 'a addition_steps" where
  "stp_addition_stepwise V1 V2 =
     (let m = int (shape0 V1); p = int (shape0 V2) in
      and_then (reconcile m p) (\<lambda>(L, al, be).
      and_then (np_ones al 1) (\<lambda>ones_alpha.
      and_then (np_ones be 1) (\<lambda>ones_beta.
        let V1k = np_kron V1 ones_alpha; V2k = np_kron V2 ones_beta in
        and_then (np_add V1k V2k) (\<lambda>R.
          Inr \<lparr>LCM_add = L, alpha_add = al, beta_add = be,
               V1_kron = V1k, V2_kron = V2k, Result_add = R\<rparr>)))))"

text \<open>
  The matrix addition of Mode B, which the script computes inline: \<open>lcm_row\<close> and
  \<open>lcm_col\<close> (lines 295-296) from the four widget values \<open>ma, na, mb, nb\<close>, then the
  factors, the all-ones blocks, the two expansions and \<open>Res_add\<close> (lines 315-325).
  \<open>A\<close> and \<open>B\<close> are the arrays the script holds for these widget values.
\<close>

record 'a matrix_addition_steps =
  lcm_row :: int
  lcm_col :: int
  alpha_r :: int
  alpha_c :: int
  beta_r :: int
  beta_c :: int
  A_exp :: "'a ndarray"
  B_exp :: "'a ndarray"
  Res_add :: "'a ndarray"

definition mode_b_addition ::
  "int \<Rightarrow> int \<Rightarrow> int \<Rightarrow> int \<Rightarrow> ('a::comm_ring_1) ndarray \<Rightarrow> 'a ndarray
     \<Rightarrow> py_error + 'a matrix_addition_steps" where
  "mode_b_addition ma na mb nb A B =
     and_then (get_lcm ma mb) (\<lambda>lr.
     and_then (get_lcm na nb) (\<lambda>lc.
     and_then (py_floordiv lr ma) (\<lambda>ar.
     and_then (py_floordiv lc na) (\<lambda>ac.
     and_then (py_floordiv lr mb) (\<lambda>br.
     and_then (py_floordiv lc nb) (\<lambda>bc.
     and_then (np_ones ar ac) (\<lambda>J_A.
     and_then (np_ones br bc) (\<lambda>J_B.
       let Ae = np_kron A J_A; Be = np_kron B J_B in
       and_then (np_add Ae Be) (\<lambda>R.
         Inr \<lparr>lcm_row = lr, lcm_col = lc, alpha_r = ar, alpha_c = ac,
              beta_r = br, beta_c = bc, A_exp = Ae, B_exp = Be, Res_add = R\<rparr>)))))))))"

section \<open>The structures the specification names\<close>

text \<open>
  The specification describes the expanded operands and the results by four structures.
  Each is written here as a predicate on arrays, from the specification's words, to be
  compared with what the numpy calls of the source produce.
\<close>

text \<open>
  \<open>E = A \<otimes> I(a)\<close>: every entry \<open>A[i, j]\<close> becomes an \<open>a \<times> a\<close> block of \<open>E\<close> with
  \<open>A[i, j]\<close> on its diagonal and 0 elsewhere.
\<close>

definition block_diagonal_expansion ::
  "('a::comm_ring_1) ndarray \<Rightarrow> nat \<Rightarrow> 'a ndarray \<Rightarrow> bool" where
  "block_diagonal_expansion A a E \<longleftrightarrow>
     wf_ndarray E \<and> shape0 E = shape0 A * a \<and> shape1 E = shape1 A * a \<and>
     (\<forall>i\<in>{..<shape0 A}. \<forall>j\<in>{..<shape1 A}. \<forall>k\<in>{..<a}. \<forall>l\<in>{..<a}.
        entry E (i * a + k) (j * a + l) = (if k = l then entry A i j else 0))"

text \<open>
  \<open>E = A \<otimes> ones(r, c)\<close>: every entry \<open>A[i, j]\<close> becomes an \<open>r \<times> c\<close> block of \<open>E\<close>
  that is constant and equal to \<open>A[i, j]\<close>.
\<close>

definition uniform_block_expansion ::
  "'a ndarray \<Rightarrow> nat \<Rightarrow> nat \<Rightarrow> 'a ndarray \<Rightarrow> bool" where
  "uniform_block_expansion A r c E \<longleftrightarrow>
     wf_ndarray E \<and> shape0 E = shape0 A * r \<and> shape1 E = shape1 A * c \<and>
     (\<forall>i\<in>{..<shape0 A}. \<forall>j\<in>{..<shape1 A}. \<forall>k\<in>{..<r}. \<forall>l\<in>{..<c}.
        entry E (i * r + k) (j * c + l) = entry A i j)"

text \<open>
  \<open>R\<close> is the standard matrix product of \<open>A\<close> and \<open>B\<close>: the inner dimensions agree
  and \<open>R[i, j]\<close> is the sum over \<open>k\<close> of \<open>A[i, k] * B[k, j]\<close>.
\<close>

definition matrix_product ::
  "('a::comm_ring_1) ndarray \<Rightarrow> 'a ndarray \<Rightarrow> 'a ndarray \<Rightarrow> bool" where
  "matrix_product A B R \<longleftrightarrow>
     shape1 A = shape0 B \<and>
     wf_ndarray R \<and> shape0 R = shape0 A \<and> shape1 R = shape1 B \<and>
     (\<forall>i\<in>{..<shape0 A}. \<forall>j\<in>{..<shape1 B}.
        entry R i j = (\<Sum>k\<in>{..<shape1 A}. entry A i k * entry B k j))"

text \<open>
  \<open>R\<close> is the elementwise sum of two arrays of one shape.
\<close>

definition elementwise_sum ::
  "('a::comm_ring_1) ndarray \<Rightarrow> 'a ndarray \<Rightarrow> 'a ndarray \<Rightarrow> bool" where
  "elementwise_sum A B R \<longleftrightarrow>
     shape0 A = shape0 B \<and> shape1 A = shape1 B \<and>
     wf_ndarray R \<and> shape0 R = shape0 A \<and> shape1 R = shape1 A \<and>
     (\<forall>i\<in>{..<shape0 A}. \<forall>j\<in>{..<shape1 A}. entry R i j = entry A i j + entry B i j)"

section \<open>Arrays: shapes, entries and the numpy operations\<close>

lemma shape_tabulate [simp]:
  "shape0 (tabulate m n f) = m" "shape1 (tabulate m n f) = n"
  by (simp_all add: tabulate_def)

lemma wf_tabulate [simp]: "wf_ndarray (tabulate m n f)"
  by (auto simp: wf_ndarray_def tabulate_def)

lemma entry_tabulate [simp]:
  "i < m \<Longrightarrow> j < n \<Longrightarrow> entry (tabulate m n f) i j = f i j"
  by (simp add: entry_def tabulate_def)

lemma tabulate_cong:
  assumes "\<And>i j. i < m \<Longrightarrow> j < n \<Longrightarrow> f i j = g i j"
  shows "tabulate m n f = tabulate m n g"
  using assms by (simp add: tabulate_def)

lemma tabulate_entry:
  assumes "wf_ndarray A"
  shows "tabulate (shape0 A) (shape1 A) (entry A) = A"
proof (cases A)
  case (NDArray m n xs)
  with assms have len: "length xs = m" and row: "\<And>i. i < m \<Longrightarrow> length (xs ! i) = n"
    by (auto simp: wf_ndarray_def)
  have "map (\<lambda>i. map (\<lambda>j. xs ! i ! j) [0..<n]) [0..<m] = xs"
  proof (rule nth_equalityI)
    show "length (map (\<lambda>i. map (\<lambda>j. xs ! i ! j) [0..<n]) [0..<m]) = length xs"
      by (simp add: len)
  next
    fix i
    assume "i < length (map (\<lambda>i. map (\<lambda>j. xs ! i ! j) [0..<n]) [0..<m])"
    then have i: "i < m" by simp
    then have "map (\<lambda>j. xs ! i ! j) [0..<n] = xs ! i"
      using row [OF i] by (intro nth_equalityI) simp_all
    with i show "map (\<lambda>i. map (\<lambda>j. xs ! i ! j) [0..<n]) [0..<m] ! i = xs ! i"
      by simp
  qed
  with NDArray show ?thesis
    by (simp add: tabulate_def entry_def)
qed

lemma ndarray_eqI:
  assumes "wf_ndarray A" and "wf_ndarray B"
    and "shape0 A = shape0 B" and "shape1 A = shape1 B"
    and "\<And>i j. i < shape0 A \<Longrightarrow> j < shape1 A \<Longrightarrow> entry A i j = entry B i j"
  shows "A = B"
proof -
  have "tabulate (shape0 A) (shape1 A) (entry A) = tabulate (shape0 A) (shape1 A) (entry B)"
    by (rule tabulate_cong) (rule assms(5))
  moreover have "tabulate (shape0 A) (shape1 A) (entry A) = A"
    using assms(1) by (rule tabulate_entry)
  moreover have "tabulate (shape0 A) (shape1 A) (entry B) = B"
    using tabulate_entry [OF assms(2)] assms(3,4) by simp
  ultimately show ?thesis by simp
qed

lemma block_index_less: "i < a \<Longrightarrow> k < b \<Longrightarrow> i * b + k < a * (b::nat)"
proof -
  assume i: "i < a" and k: "k < b"
  then have "i * b + k < Suc i * b" by simp
  also have "\<dots> \<le> a * b" using i by (intro mult_le_mono1) simp
  finally show ?thesis .
qed

lemma entry_np_kron:
  assumes "i < shape0 A" "j < shape1 A" "k < shape0 B" "l < shape1 B"
  shows "entry (np_kron A B) (i * shape0 B + k) (j * shape1 B + l) = entry A i j * entry B k l"
  using assms by (simp add: np_kron_def block_index_less)

lemma shape_np_kron [simp]:
  "shape0 (np_kron A B) = shape0 A * shape0 B" "shape1 (np_kron A B) = shape1 A * shape1 B"
  by (simp_all add: np_kron_def)

lemma wf_np_kron [simp]: "wf_ndarray (np_kron A B)"
  by (simp add: np_kron_def)

lemma np_eye_nat: "np_eye (int a) = Inr (tabulate a a (\<lambda>i j. if i = j then 1 else 0))"
  by (simp add: np_eye_def)

lemma np_ones_nat: "np_ones (int r) (int c) = Inr (tabulate r c (\<lambda>i j. 1))"
  by (simp add: np_ones_def)

lemma np_ones_col: "np_ones (int a) 1 = Inr (tabulate a 1 (\<lambda>i j. 1))"
  by (simp add: np_ones_def)

lemma np_kron_unit:
  assumes "wf_ndarray A"
  shows "np_kron A (tabulate 1 1 (\<lambda>i j. 1)) = A"
proof (rule ndarray_eqI)
  fix i j assume "i < shape0 (np_kron A (tabulate 1 1 (\<lambda>i j. 1)))"
    and "j < shape1 (np_kron A (tabulate 1 1 (\<lambda>i j. 1)))"
  then show "entry (np_kron A (tabulate 1 1 (\<lambda>i j. 1))) i j = entry A i j"
    by (simp add: np_kron_def)
qed (use assms in simp_all)

lemma eye_1: "tabulate 1 1 (\<lambda>i j. if i = j then 1 else 0) = tabulate 1 1 (\<lambda>i j. 1)"
  by (rule tabulate_cong) simp

lemma sum_list_upt: "sum_list (map f [0..<n]) = (\<Sum>k\<in>{..<n}. f k)"
  by (simp add: interv_sum_list_conv_sum_set_nat atLeast0LessThan)

lemma kron_eye_blocks:
  "block_diagonal_expansion A a (np_kron A (tabulate a a (\<lambda>i j. if i = j then 1 else 0)))"
proof -
  let ?I = "tabulate a a (\<lambda>i j. if i = j then 1 else (0::'a))"
  have "entry (np_kron A ?I) (i * a + k) (j * a + l) = (if k = l then entry A i j else 0)"
    if "i < shape0 A" "j < shape1 A" "k < a" "l < a" for i j k l
    using entry_np_kron [of i A j k ?I l] that by simp
  then show ?thesis
    by (simp add: block_diagonal_expansion_def)
qed

lemma kron_ones_blocks:
  "uniform_block_expansion A r c (np_kron A (tabulate r c (\<lambda>i j. 1)))"
proof -
  let ?J = "tabulate r c (\<lambda>i j. (1::'a))"
  have "entry (np_kron A ?J) (i * r + k) (j * c + l) = entry A i j"
    if "i < shape0 A" "j < shape1 A" "k < r" "l < c" for i j k l
    using entry_np_kron [of i A j k ?J l] that by simp
  then show ?thesis
    by (simp add: uniform_block_expansion_def)
qed

lemma np_dot_product:
  assumes "shape1 A = shape0 B"
  shows "\<exists>R. np_dot A B = Inr R \<and> matrix_product A B R"
  using assms by (simp add: np_dot_def matrix_product_def sum_list_upt)

lemma np_add_same_shape:
  assumes "shape0 A = shape0 B" and "shape1 A = shape1 B"
  shows "\<exists>R. np_add A B = Inr R \<and> elementwise_sum A B R"
proof -
  have "entry A (if shape0 B = 1 then 0 else i) (if shape1 B = 1 then 0 else j) = entry A i j"
    if "i < shape0 B" "j < shape1 B" for i j and A :: "'a ndarray"
    using that by auto
  with assms show ?thesis
    by (simp add: np_add_def broadcast_dim_def elementwise_sum_def)
qed

lemma np_add_commute: "np_add A B = np_add B A"
proof -
  have b: "broadcast_dim d1 d2 = broadcast_dim d2 d1" for d1 d2
    by (simp add: broadcast_dim_def)
  show ?thesis
    unfolding np_add_def b [of "shape0 B" "shape0 A"] b [of "shape1 B" "shape1 A"]
    by (simp add: add.commute split: option.splits)
qed

lemma upt_6: "[0..<6] = [0, 1, 2, 3, 4, 5]"
  by code_simp

section \<open>Dimension reconciliation\<close>

lemma get_lcm_is_lcm: "get_lcm a b = Inr (lcm a b)"
proof (cases "a = 0 \<or> b = 0")
  case True
  then show ?thesis by (auto simp: get_lcm_def)
next
  case False
  then have "gcd a b \<noteq> 0" by simp
  with False show ?thesis
    by (simp add: get_lcm_def py_floordiv_def lcm_altdef_int abs_mult)
qed

lemma lcm_pos_int: "a \<noteq> 0 \<Longrightarrow> b \<noteq> 0 \<Longrightarrow> 0 < lcm a (b::int)"
  by (metis abs_lcm_int lcm_eq_0_iff zero_less_abs_iff)

lemma lcm_div_pos_left: "0 < a \<Longrightarrow> 0 < b \<Longrightarrow> 0 < lcm a b div (a::int)"
  by (metis dvd_lcm1 lcm_pos_int less_irrefl pos_imp_zdiv_pos_iff zdvd_imp_le)

lemma lcm_div_pos_right: "0 < a \<Longrightarrow> 0 < b \<Longrightarrow> 0 < lcm a b div (b::int)"
  by (metis dvd_lcm2 lcm_pos_int less_irrefl pos_imp_zdiv_pos_iff zdvd_imp_le)

lemma reconcile_nonzero:
  "n \<noteq> 0 \<Longrightarrow> p \<noteq> 0 \<Longrightarrow> reconcile n p = Inr (lcm n p, lcm n p div n, lcm n p div p)"
  by (simp add: reconcile_def get_lcm_is_lcm py_floordiv_def)

lemma reconcile_zero:
  "n = 0 \<or> p = 0 \<Longrightarrow> reconcile n p = Inl ZeroDivisionError"
  by (auto simp: reconcile_def get_lcm_is_lcm py_floordiv_def)

lemma lcm_4_6: "lcm (4::int) 6 = 12"
  by code_simp

lemma lcm_2_3: "lcm (2::int) 3 = 6"
  by code_simp

text \<open>
  Claim C1. For positive \<open>d1\<close> and \<open>d2\<close> the reconciliation returns \<open>(L, alpha, beta)\<close>
  where \<open>L\<close> is what \<open>get_lcm\<close> returns, \<open>L = |d1 * d2| div gcd d1 d2 = lcm d1 d2\<close>,
  \<open>alpha = L div d1\<close> and \<open>beta = L div d2\<close>; both factors are positive,
  \<open>alpha * d1 = L\<close> and \<open>beta * d2 = L\<close>, and \<open>L\<close> is the least positive integer that
  both \<open>d1\<close> and \<open>d2\<close> divide.
\<close>

theorem reconcile_positive:
  assumes "0 < d1" and "0 < d2"
  shows "\<exists>L a b. reconcile d1 d2 = Inr (L, a, b)
           \<and> get_lcm d1 d2 = Inr L
           \<and> L = \<bar>d1 * d2\<bar> div gcd d1 d2 \<and> L = lcm d1 d2
           \<and> a = L div d1 \<and> b = L div d2
           \<and> a * d1 = L \<and> b * d2 = L \<and> 0 < a \<and> 0 < b
           \<and> 0 < L \<and> d1 dvd L \<and> d2 dvd L
           \<and> (\<forall>k. 0 < k \<and> d1 dvd k \<and> d2 dvd k \<longrightarrow> L \<le> k)"
proof -
  let ?L = "lcm d1 d2"
  from assms have nz: "d1 \<noteq> 0" "d2 \<noteq> 0" by simp_all
  have r: "reconcile d1 d2 = Inr (?L, ?L div d1, ?L div d2)"
    using nz by (rule reconcile_nonzero)
  have f: "?L = \<bar>d1 * d2\<bar> div gcd d1 d2"
    by (simp add: lcm_altdef_int abs_mult)
  have least: "\<forall>k. 0 < k \<and> d1 dvd k \<and> d2 dvd k \<longrightarrow> ?L \<le> k"
    by (auto intro: zdvd_imp_le lcm_least)
  have pos: "0 < ?L" "0 < ?L div d1" "0 < ?L div d2"
    using assms nz by (simp_all add: lcm_pos_int lcm_div_pos_left lcm_div_pos_right)
  have recover: "?L div d1 * d1 = ?L" "?L div d2 * d2 = ?L"
    using nz by simp_all
  have g: "get_lcm d1 d2 = Inr ?L"
    by (rule get_lcm_is_lcm)
  have dv: "d1 dvd ?L" "d2 dvd ?L"
    by simp_all
  show ?thesis
  proof (intro exI conjI)
    show "reconcile d1 d2 = Inr (?L, ?L div d1, ?L div d2)" by (rule r)
  qed (use g f least pos recover dv in blast)+
qed

theorem reconcile_positive_witness:
  "(0::int) < 4 \<and> (0::int) < 6 \<and> reconcile 4 6 = Inr (12, 3, 2)"
  using reconcile_positive [of 4 6] by (auto simp: lcm_4_6)

text \<open>
  Claim C6, as stated, fails: \<open>get_lcm\<close> raises nothing for a zero or a negative
  dimension. With a zero it returns 0, with negative values the positive least common
  multiple of the absolute values, and the factor computation then goes on with it.
\<close>

theorem get_lcm_nonpositive_counterexample:
  "get_lcm 0 5 = Inr 0 \<and> get_lcm (- 2) 3 = Inr 6 \<and> reconcile (- 2) 3 = Inr (6, - 3, 2)"
  by (simp add: get_lcm_is_lcm reconcile_def py_floordiv_def lcm_2_3)

text \<open>
  Claim C6, amended. When a supplied dimension is \<open>\<le> 0\<close>, \<open>get_lcm\<close> returns a value
  and raises nothing: 0 when a dimension is zero, the positive \<open>lcm |a| |b|\<close> otherwise.
  The only failure is in the factor computation that follows it, \<open>L // d\<close>, which raises
  \<open>ZeroDivisionError\<close> when a dimension is zero; with two nonzero dimensions the
  reconciliation returns its triple also when one of them is negative.
\<close>

theorem get_lcm_nonpositive:
  "a \<le> 0 \<or> b \<le> 0 \<Longrightarrow>
     get_lcm a b = Inr (if a = 0 \<or> b = 0 then 0 else lcm \<bar>a\<bar> \<bar>b\<bar>)
     \<and> (a = 0 \<or> b = 0 \<longrightarrow> reconcile a b = Inl ZeroDivisionError)
     \<and> (a \<noteq> 0 \<and> b \<noteq> 0 \<longrightarrow>
          reconcile a b = Inr (lcm a b, lcm a b div a, lcm a b div b) \<and> 0 < lcm a b)"
  by (auto simp: get_lcm_is_lcm reconcile_zero reconcile_nonzero lcm_pos_int)

theorem get_lcm_nonpositive_witness:
  "((- 2::int) \<le> 0 \<or> (3::int) \<le> 0) \<and> get_lcm (- 2) 3 = Inr 6
   \<and> ((0::int) \<le> 0 \<or> (5::int) \<le> 0) \<and> reconcile 0 5 = Inl ZeroDivisionError"
  using get_lcm_nonpositive [of "- 2" 3] get_lcm_nonpositive [of 0 5]
  by (auto simp: lcm_2_3)

text \<open>
  Claim C7. If either input is zero, \<open>get_lcm\<close> returns 0 and raises no error.
\<close>

theorem get_lcm_zero:
  "a = 0 \<or> b = 0 \<Longrightarrow> get_lcm a b = Inr 0"
  by (auto simp: get_lcm_def)

theorem get_lcm_zero_witness:
  "((0::int) = 0 \<or> (5::int) = 0) \<and> get_lcm 0 5 = Inr 0"
  using get_lcm_zero [of 0 5] by simp

text \<open>
  Claim C10. For nonzero \<open>a\<close> and \<open>b\<close> of either sign, \<open>get_lcm\<close> returns
  \<open>lcm |a| |b|\<close> without error, and that value is positive; for all integers,
  \<open>get_lcm a b = get_lcm b a\<close>.
\<close>

theorem get_lcm_signed_symmetric:
  "(a \<noteq> 0 \<and> b \<noteq> 0 \<longrightarrow> get_lcm a b = Inr (lcm \<bar>a\<bar> \<bar>b\<bar>) \<and> 0 < lcm \<bar>a\<bar> \<bar>b\<bar>)
   \<and> get_lcm a b = get_lcm b a"
  by (simp add: get_lcm_is_lcm lcm_pos_int lcm.commute)

theorem get_lcm_signed_symmetric_witness:
  "(- 4 \<noteq> (0::int) \<and> 6 \<noteq> (0::int)) \<and> get_lcm (- 4) 6 = Inr 12 \<and> get_lcm 6 (- 4) = Inr 12"
  using get_lcm_signed_symmetric [of "- 4" 6] by (auto simp: lcm_4_6)

lemma reconcile_nat:
  assumes "0 < n" and "0 < p"
  shows "reconcile (int n) (int p)
         = Inr (int (lcm n p), int (lcm n p div n), int (lcm n p div p))"
  using assms by (simp add: reconcile_nonzero zdiv_int)

lemma py_floordiv_nat: "0 < n \<Longrightarrow> py_floordiv (int L) (int n) = Inr (int (L div n))"
  by (simp add: py_floordiv_def zdiv_int)

lemma get_lcm_nat: "get_lcm (int n) (int p) = Inr (int (lcm n p))"
  by (simp add: get_lcm_is_lcm)

section \<open>The generalized product\<close>

text \<open>
  Outside the domain of the claims below: when the column count of \<open>A\<close> or the row
  count of \<open>B\<close> is zero, the factor computation divides by zero.
\<close>

lemma stp_product_stepwise_zero_dimension:
  "shape1 A = 0 \<or> shape0 B = 0 \<Longrightarrow> stp_product_stepwise A B = Inl ZeroDivisionError"
  by (auto simp: stp_product_stepwise_def reconcile_zero)

lemma stp_product_stepwise_unfold:
  assumes "0 < shape1 A" and "0 < shape0 B"
  defines "L \<equiv> lcm (shape1 A) (shape0 B)"
  defines "a \<equiv> L div shape1 A" and "b \<equiv> L div shape0 B"
  defines "Ak \<equiv> np_kron A (tabulate a a (\<lambda>i j. if i = j then 1 else 0))"
  defines "Bk \<equiv> np_kron B (tabulate b b (\<lambda>i j. if i = j then 1 else 0))"
  shows "stp_product_stepwise A B =
           and_then (np_dot Ak Bk) (\<lambda>R. Inr \<lparr>LCM_mul = int L, alpha_mul = int a, beta_mul = int b,
                                           A_kron = Ak, B_kron = Bk, Result_mul = R\<rparr>)"
  using assms(1,2)
  by (simp add: stp_product_stepwise_def reconcile_nat np_eye_nat Let_def
      L_def a_def b_def Ak_def Bk_def)

lemma product_scenario:
  "stp_product_stepwise (NDArray 2 2 [[1, 2], [3, 4::int]]) (NDArray 3 2 [[1, 0], [0, 1], [1, 1]])
   = Inr \<lparr>LCM_mul = 6, alpha_mul = 3, beta_mul = 2,
          A_kron = NDArray 6 6
            [[1, 0, 0, 2, 0, 0], [0, 1, 0, 0, 2, 0], [0, 0, 1, 0, 0, 2],
             [3, 0, 0, 4, 0, 0], [0, 3, 0, 0, 4, 0], [0, 0, 3, 0, 0, 4]],
          B_kron = NDArray 6 4
            [[1, 0, 0, 0], [0, 1, 0, 0], [0, 0, 1, 0], [0, 0, 0, 1],
             [1, 0, 1, 0], [0, 1, 0, 1]],
          Result_mul = NDArray 6 4
            [[1, 0, 0, 2], [2, 1, 2, 0], [0, 2, 1, 2], [3, 0, 0, 4],
             [4, 3, 4, 0], [0, 4, 3, 4]]\<rparr>"
  by code_simp

lemma matching_scenario:
  "stp_product_stepwise (NDArray 2 2 [[1, 2], [3, 4::int]]) (NDArray 2 1 [[5], [6]])
   = Inr \<lparr>LCM_mul = 2, alpha_mul = 1, beta_mul = 1,
          A_kron = NDArray 2 2 [[1, 2], [3, 4]], B_kron = NDArray 2 1 [[5], [6]],
          Result_mul = NDArray 2 1 [[17], [39]]\<rparr>"
  by code_simp

text \<open>
  Claim C2, as stated, fails on the shapes. \<open>np.kron(A, I(a))\<close> multiplies the row count
  of \<open>A\<close> by \<open>a\<close> as well as its column count. For the 2 x 2 matrix and the 3 x 2
  matrix below (\<open>L = 6\<close>, \<open>alpha = 3\<close>, \<open>beta = 2\<close>) the expanded \<open>A\<close> is 6 x 6 and not
  2 x 6, the expanded \<open>B\<close> is 6 x 4 and not 6 x 2, and the result is 6 x 4 and not 2 x 2.
\<close>

theorem stp_product_shape_counterexample:
  "stp_product_stepwise (NDArray 2 2 [[1, 2], [3, 4::int]]) (NDArray 3 2 [[1, 0], [0, 1], [1, 1]])
   = Inr \<lparr>LCM_mul = 6, alpha_mul = 3, beta_mul = 2,
          A_kron = NDArray 6 6
            [[1, 0, 0, 2, 0, 0], [0, 1, 0, 0, 2, 0], [0, 0, 1, 0, 0, 2],
             [3, 0, 0, 4, 0, 0], [0, 3, 0, 0, 4, 0], [0, 0, 3, 0, 0, 4]],
          B_kron = NDArray 6 4
            [[1, 0, 0, 0], [0, 1, 0, 0], [0, 0, 1, 0], [0, 0, 0, 1],
             [1, 0, 1, 0], [0, 1, 0, 1]],
          Result_mul = NDArray 6 4
            [[1, 0, 0, 2], [2, 1, 2, 0], [0, 2, 1, 2], [3, 0, 0, 4],
             [4, 3, 4, 0], [0, 4, 3, 4]]\<rparr>
   \<and> shape0 (A_kron (projr (stp_product_stepwise (NDArray 2 2 [[1, 2], [3, 4::int]])
                              (NDArray 3 2 [[1, 0], [0, 1], [1, 1]])))) \<noteq> 2
   \<and> shape1 (B_kron (projr (stp_product_stepwise (NDArray 2 2 [[1, 2], [3, 4::int]])
                              (NDArray 3 2 [[1, 0], [0, 1], [1, 1]])))) \<noteq> 2
   \<and> shape0 (Result_mul (projr (stp_product_stepwise (NDArray 2 2 [[1, 2], [3, 4::int]])
                              (NDArray 3 2 [[1, 0], [0, 1], [1, 1]])))) \<noteq> 2
   \<and> shape1 (Result_mul (projr (stp_product_stepwise (NDArray 2 2 [[1, 2], [3, 4::int]])
                              (NDArray 3 2 [[1, 0], [0, 1], [1, 1]])))) \<noteq> 2"
  by (simp add: product_scenario)

text \<open>
  Claim C2, amended. For an \<open>m \<times> n\<close> matrix \<open>A\<close> and a \<open>p \<times> q\<close> matrix \<open>B\<close> with
  \<open>m, n, p, q \<ge> 1\<close>, the generalized product returns \<open>L = lcm n p\<close>, \<open>alpha = L div n\<close>,
  \<open>beta = L div p\<close>, the expansion \<open>A \<otimes> I(alpha)\<close> of shape \<open>(m * alpha) \<times> L\<close> in which
  each entry of \<open>A\<close> is an \<open>alpha \<times> alpha\<close> block with that entry on the diagonal and 0
  elsewhere, the expansion \<open>B \<otimes> I(beta)\<close> of shape \<open>L \<times> (q * beta)\<close> with the same block
  structure, and as result their standard matrix product, of shape
  \<open>(m * alpha) \<times> (q * beta)\<close>.
\<close>

theorem stp_product_structure:
  assumes "wf_ndarray A" and "wf_ndarray B"
    and "1 \<le> shape0 A" and "1 \<le> shape1 A" and "1 \<le> shape0 B" and "1 \<le> shape1 B"
  shows "\<exists>r a b. stp_product_stepwise A B = Inr r
           \<and> LCM_mul r = lcm (int (shape1 A)) (int (shape0 B))
           \<and> alpha_mul r = int a \<and> beta_mul r = int b
           \<and> alpha_mul r = LCM_mul r div int (shape1 A)
           \<and> beta_mul r = LCM_mul r div int (shape0 B)
           \<and> block_diagonal_expansion A a (A_kron r)
           \<and> block_diagonal_expansion B b (B_kron r)
           \<and> int (shape0 (A_kron r)) = int (shape0 A) * alpha_mul r
           \<and> int (shape1 (A_kron r)) = LCM_mul r
           \<and> int (shape0 (B_kron r)) = LCM_mul r
           \<and> int (shape1 (B_kron r)) = int (shape1 B) * beta_mul r
           \<and> np_dot (A_kron r) (B_kron r) = Inr (Result_mul r)
           \<and> matrix_product (A_kron r) (B_kron r) (Result_mul r)
           \<and> int (shape0 (Result_mul r)) = int (shape0 A) * alpha_mul r
           \<and> int (shape1 (Result_mul r)) = int (shape1 B) * beta_mul r"
proof -
  define L where "L = lcm (shape1 A) (shape0 B)"
  define a where "a = L div shape1 A"
  define b where "b = L div shape0 B"
  define Ak where "Ak = np_kron A (tabulate a a (\<lambda>i j. if i = j then 1 else 0))"
  define Bk where "Bk = np_kron B (tabulate b b (\<lambda>i j. if i = j then 1 else 0))"
  have na: "shape1 A * a = L" and pb: "shape0 B * b = L"
    by (simp_all add: a_def b_def L_def)
  have "shape1 Ak = shape0 Bk"
    by (simp add: Ak_def Bk_def na pb)
  then obtain R where R: "np_dot Ak Bk = Inr R" "matrix_product Ak Bk R"
    using np_dot_product by blast
  define r where "r = \<lparr>LCM_mul = int L, alpha_mul = int a, beta_mul = int b,
                        A_kron = Ak, B_kron = Bk, Result_mul = R\<rparr>"
  have run: "stp_product_stepwise A B = Inr r"
    using assms(4,5) R(1)
    by (simp add: stp_product_stepwise_unfold r_def Ak_def Bk_def a_def b_def L_def)
  have bA: "block_diagonal_expansion A a Ak" and bB: "block_diagonal_expansion B b Bk"
    unfolding Ak_def Bk_def by (rule kron_eye_blocks)+
  have lcm: "int L = lcm (int (shape1 A)) (int (shape0 B))"
    by (simp add: L_def)
  have fa: "int a = int L div int (shape1 A)" and fb: "int b = int L div int (shape0 B)"
    by (simp_all add: a_def b_def zdiv_int)
  have shA: "shape0 Ak = shape0 A * a" "shape1 Ak = L"
    and shB: "shape0 Bk = L" "shape1 Bk = shape1 B * b"
    by (simp_all add: Ak_def Bk_def na pb)
  have shR: "shape0 R = shape0 A * a" "shape1 R = shape1 B * b"
    using R(2) shA shB by (simp_all add: matrix_product_def)
  show ?thesis
  proof (intro exI conjI)
    show "stp_product_stepwise A B = Inr r" by (rule run)
    show "alpha_mul r = int a" "beta_mul r = int b" by (simp_all add: r_def)
  qed (use lcm fa fb bA bB shA shB shR R in \<open>simp_all add: r_def\<close>)
qed

theorem stp_product_structure_witness:
  "wf_ndarray (NDArray 2 2 [[1, 2], [3, 4::int]])
   \<and> wf_ndarray (NDArray 3 2 [[1, 0], [0, 1], [1, 1::int]])
   \<and> (1::nat) \<le> shape0 (NDArray 2 2 [[1, 2], [3, 4::int]])
   \<and> (1::nat) \<le> shape1 (NDArray 2 2 [[1, 2], [3, 4::int]])
   \<and> (1::nat) \<le> shape0 (NDArray 3 2 [[1, 0], [0, 1], [1, 1::int]])
   \<and> (1::nat) \<le> shape1 (NDArray 3 2 [[1, 0], [0, 1], [1, 1::int]])
   \<and> block_diagonal_expansion (NDArray 2 2 [[1, 2], [3, 4::int]]) 3
        (NDArray 6 6
            [[1, 0, 0, 2, 0, 0], [0, 1, 0, 0, 2, 0], [0, 0, 1, 0, 0, 2],
             [3, 0, 0, 4, 0, 0], [0, 3, 0, 0, 4, 0], [0, 0, 3, 0, 0, 4]])
   \<and> block_diagonal_expansion (NDArray 3 2 [[1, 0], [0, 1], [1, 1::int]]) 2
        (NDArray 6 4
            [[1, 0, 0, 0], [0, 1, 0, 0], [0, 0, 1, 0], [0, 0, 0, 1],
             [1, 0, 1, 0], [0, 1, 0, 1]])
   \<and> matrix_product
        (NDArray 6 6
            [[1, 0, 0, 2, 0, 0], [0, 1, 0, 0, 2, 0], [0, 0, 1, 0, 0, 2],
             [3, 0, 0, 4, 0, 0], [0, 3, 0, 0, 4, 0], [0, 0, 3, 0, 0, 4]])
        (NDArray 6 4
            [[1, 0, 0, 0], [0, 1, 0, 0], [0, 0, 1, 0], [0, 0, 0, 1],
             [1, 0, 1, 0], [0, 1, 0, 1]])
        (NDArray 6 4
            [[1, 0, 0, 2], [2, 1, 2, 0], [0, 2, 1, 2], [3, 0, 0, 4],
             [4, 3, 4, 0], [0, 4, 3, 4::int]])"
proof -
  let ?A = "NDArray 2 2 [[1, 2], [3, 4::int]]"
  let ?B = "NDArray 3 2 [[1, 0], [0, 1], [1, 1::int]]"
  have h: "wf_ndarray ?A" "wf_ndarray ?B"
    "1 \<le> shape0 ?A" "1 \<le> shape1 ?A" "1 \<le> shape0 ?B" "1 \<le> shape1 ?B"
    by (simp_all add: wf_ndarray_def)
  from stp_product_structure [OF h] obtain r a b
    where run: "stp_product_stepwise ?A ?B = Inr r"
      and fac: "alpha_mul r = int a" "beta_mul r = int b"
      and blk: "block_diagonal_expansion ?A a (A_kron r)"
        "block_diagonal_expansion ?B b (B_kron r)"
      and prod: "matrix_product (A_kron r) (B_kron r) (Result_mul r)"
    by blast
  from run have r: "Inr r = stp_product_stepwise ?A ?B" by (rule sym)
  note r' = r [unfolded product_scenario, THEN Inr_inject]
  from fac have "a = 3" "b = 2"
    unfolding r' by simp_all
  with blk prod h show ?thesis
    unfolding r' by simp
qed

text \<open>
  Claim C3. When the column count \<open>n \<ge> 1\<close> of \<open>A\<close> equals the row count of \<open>B\<close>, the
  generalized product returns \<open>alpha = beta = 1\<close>, the expanded operands are \<open>A\<close> and \<open>B\<close>
  themselves, and the result is what \<open>np.dot(A, B)\<close> returns, the standard matrix
  product of \<open>A\<close> and \<open>B\<close>.
\<close>

theorem stp_product_matching:
  assumes "wf_ndarray A" and "wf_ndarray B"
    and "shape1 A = shape0 B" and "1 \<le> shape1 A"
  shows "\<exists>r. stp_product_stepwise A B = Inr r
           \<and> LCM_mul r = int (shape1 A) \<and> alpha_mul r = 1 \<and> beta_mul r = 1
           \<and> A_kron r = A \<and> B_kron r = B
           \<and> np_dot A B = Inr (Result_mul r)
           \<and> matrix_product A B (Result_mul r)"
proof -
  obtain R where R: "np_dot A B = Inr R" "matrix_product A B R"
    using np_dot_product [OF assms(3)] by blast
  have "lcm (shape1 A) (shape0 B) div shape1 A = 1"
    using assms(3,4) by simp
  moreover have "np_kron A (tabulate 1 1 (\<lambda>i j. if i = j then 1 else 0)) = A"
    and "np_kron B (tabulate 1 1 (\<lambda>i j. if i = j then 1 else 0)) = B"
    using assms(1,2) by (simp_all only: eye_1 np_kron_unit)
  ultimately have "stp_product_stepwise A B =
      Inr \<lparr>LCM_mul = int (shape1 A), alpha_mul = 1, beta_mul = 1,
           A_kron = A, B_kron = B, Result_mul = R\<rparr>"
    using assms(3,4) R(1) stp_product_stepwise_unfold [of A B] by simp
  with R show ?thesis by simp
qed

theorem stp_product_matching_witness:
  "wf_ndarray (NDArray 2 2 [[1, 2], [3, 4::int]])
   \<and> wf_ndarray (NDArray 2 1 [[5], [6::int]])
   \<and> shape1 (NDArray 2 2 [[1, 2], [3, 4::int]]) = shape0 (NDArray 2 1 [[5], [6::int]])
   \<and> (1::nat) \<le> shape1 (NDArray 2 2 [[1, 2], [3, 4::int]])
   \<and> np_dot (NDArray 2 2 [[1, 2], [3, 4::int]]) (NDArray 2 1 [[5], [6]])
       = Inr (NDArray 2 1 [[17], [39]])
   \<and> matrix_product (NDArray 2 2 [[1, 2], [3, 4::int]]) (NDArray 2 1 [[5], [6]])
        (NDArray 2 1 [[17], [39]])"
proof -
  let ?A = "NDArray 2 2 [[1, 2], [3, 4::int]]"
  let ?B = "NDArray 2 1 [[5], [6::int]]"
  have h: "wf_ndarray ?A" "wf_ndarray ?B" "shape1 ?A = shape0 ?B" "1 \<le> shape1 ?A"
    by (simp_all add: wf_ndarray_def)
  from stp_product_matching [OF h] obtain r
    where run: "stp_product_stepwise ?A ?B = Inr r"
      and dot: "np_dot ?A ?B = Inr (Result_mul r)"
      and prod: "matrix_product ?A ?B (Result_mul r)"
    by blast
  from run have r: "Inr r = stp_product_stepwise ?A ?B" by (rule sym)
  note r' = r [unfolded matching_scenario, THEN Inr_inject]
  from dot prod h show ?thesis
    unfolding r' by simp
qed

section \<open>The generalized addition of column vectors\<close>

lemma stp_addition_stepwise_unfold:
  assumes "0 < shape0 V1" and "0 < shape0 V2"
  defines "L \<equiv> lcm (shape0 V1) (shape0 V2)"
  defines "a \<equiv> L div shape0 V1" and "b \<equiv> L div shape0 V2"
  defines "V1k \<equiv> np_kron V1 (tabulate a 1 (\<lambda>i j. 1))"
  defines "V2k \<equiv> np_kron V2 (tabulate b 1 (\<lambda>i j. 1))"
  shows "stp_addition_stepwise V1 V2 =
           and_then (np_add V1k V2k)
             (\<lambda>R. Inr \<lparr>LCM_add = int L, alpha_add = int a, beta_add = int b,
                        V1_kron = V1k, V2_kron = V2k, Result_add = R\<rparr>)"
proof -
  have rec: "reconcile (int (shape0 V1)) (int (shape0 V2)) = Inr (int L, int a, int b)"
    unfolding L_def a_def b_def using assms(1,2) by (rule reconcile_nat)
  show ?thesis
    by (simp only: stp_addition_stepwise_def Let_def rec np_ones_col and_then.simps prod.case
        V1k_def V2k_def)
qed

lemma addition_scenario_int:
  "stp_addition_stepwise (NDArray 2 1 [[10], [20::int]]) (NDArray 3 1 [[1], [2], [3]])
   = Inr \<lparr>LCM_add = 6, alpha_add = 3, beta_add = 2,
          V1_kron = NDArray 6 1 [[10], [10], [10], [20], [20], [20]],
          V2_kron = NDArray 6 1 [[1], [1], [2], [2], [3], [3]],
          Result_add = NDArray 6 1 [[11], [11], [12], [22], [23], [23]]\<rparr>"
  by code_simp

text \<open>
  Claim C4. For column vectors \<open>V1\<close> of length \<open>m \<ge> 1\<close> and \<open>V2\<close> of length \<open>p \<ge> 1\<close>, the
  generalized addition returns \<open>L = lcm m p\<close>, \<open>alpha = L div m\<close>, \<open>beta = L div p\<close>, the
  expansions \<open>V1 \<otimes> ones(alpha, 1)\<close> and \<open>V2 \<otimes> ones(beta, 1)\<close>, both of shape \<open>L \<times> 1\<close>,
  in which each run of \<open>alpha\<close> (of \<open>beta\<close>) consecutive entries is constant and equal to
  the source entry, and as result their elementwise sum, of length \<open>L\<close>.
\<close>

theorem stp_addition_structure:
  assumes "wf_ndarray V1" and "wf_ndarray V2"
    and "shape1 V1 = 1" and "shape1 V2 = 1"
    and "1 \<le> shape0 V1" and "1 \<le> shape0 V2"
  shows "\<exists>r a b. stp_addition_stepwise V1 V2 = Inr r
           \<and> LCM_add r = lcm (int (shape0 V1)) (int (shape0 V2))
           \<and> alpha_add r = int a \<and> beta_add r = int b
           \<and> alpha_add r = LCM_add r div int (shape0 V1)
           \<and> beta_add r = LCM_add r div int (shape0 V2)
           \<and> uniform_block_expansion V1 a 1 (V1_kron r)
           \<and> uniform_block_expansion V2 b 1 (V2_kron r)
           \<and> (\<forall>i\<in>{..<shape0 V1}. \<forall>k\<in>{..<a}. entry (V1_kron r) (i * a + k) 0 = entry V1 i 0)
           \<and> (\<forall>i\<in>{..<shape0 V2}. \<forall>k\<in>{..<b}. entry (V2_kron r) (i * b + k) 0 = entry V2 i 0)
           \<and> int (shape0 (V1_kron r)) = LCM_add r \<and> shape1 (V1_kron r) = 1
           \<and> int (shape0 (V2_kron r)) = LCM_add r \<and> shape1 (V2_kron r) = 1
           \<and> np_add (V1_kron r) (V2_kron r) = Inr (Result_add r)
           \<and> elementwise_sum (V1_kron r) (V2_kron r) (Result_add r)
           \<and> int (shape0 (Result_add r)) = LCM_add r \<and> shape1 (Result_add r) = 1"
proof -
  define L where "L = lcm (shape0 V1) (shape0 V2)"
  define a where "a = L div shape0 V1"
  define b where "b = L div shape0 V2"
  define V1k where "V1k = np_kron V1 (tabulate a 1 (\<lambda>i j. 1))"
  define V2k where "V2k = np_kron V2 (tabulate b 1 (\<lambda>i j. 1))"
  have ma: "shape0 V1 * a = L" and pb: "shape0 V2 * b = L"
    by (simp_all add: a_def b_def L_def)
  have sh1: "shape0 V1k = L" "shape1 V1k = 1" and sh2: "shape0 V2k = L" "shape1 V2k = 1"
    using assms(3,4) by (simp_all add: V1k_def V2k_def ma pb)
  then obtain R where R: "np_add V1k V2k = Inr R" "elementwise_sum V1k V2k R"
    using np_add_same_shape [of V1k V2k] by auto
  define r where "r = \<lparr>LCM_add = int L, alpha_add = int a, beta_add = int b,
                        V1_kron = V1k, V2_kron = V2k, Result_add = R\<rparr>"
  have run: "stp_addition_stepwise V1 V2 = Inr r"
    using assms(5,6) R(1)
    by (simp add: stp_addition_stepwise_unfold r_def V1k_def V2k_def a_def b_def L_def)
  have u1: "uniform_block_expansion V1 a 1 V1k" and u2: "uniform_block_expansion V2 b 1 V2k"
    unfolding V1k_def V2k_def by (rule kron_ones_blocks)+
  have run1: "\<forall>i\<in>{..<shape0 V1}. \<forall>k\<in>{..<a}. entry V1k (i * a + k) 0 = entry V1 i 0"
    using u1 assms(3) by (auto simp: uniform_block_expansion_def)
  have run2: "\<forall>i\<in>{..<shape0 V2}. \<forall>k\<in>{..<b}. entry V2k (i * b + k) 0 = entry V2 i 0"
    using u2 assms(4) by (auto simp: uniform_block_expansion_def)
  have lcm: "int L = lcm (int (shape0 V1)) (int (shape0 V2))"
    by (simp add: L_def)
  have fa: "int a = int L div int (shape0 V1)" and fb: "int b = int L div int (shape0 V2)"
    by (simp_all add: a_def b_def zdiv_int)
  have shR: "shape0 R = L" "shape1 R = 1"
    using R(2) sh1 by (simp_all add: elementwise_sum_def)
  show ?thesis
  proof (intro exI conjI)
    show "stp_addition_stepwise V1 V2 = Inr r" by (rule run)
    show "alpha_add r = int a" "beta_add r = int b" by (simp_all add: r_def)
    show "\<forall>i\<in>{..<shape0 V1}. \<forall>k\<in>{..<a}. entry (V1_kron r) (i * a + k) 0 = entry V1 i 0"
      using run1 by (simp add: r_def)
    show "\<forall>i\<in>{..<shape0 V2}. \<forall>k\<in>{..<b}. entry (V2_kron r) (i * b + k) 0 = entry V2 i 0"
      using run2 by (simp add: r_def)
  qed (use lcm fa fb u1 u2 sh1 sh2 shR R in \<open>simp_all add: r_def\<close>)
qed

theorem stp_addition_structure_witness:
  "wf_ndarray (NDArray 2 1 [[10], [20::int]])
   \<and> wf_ndarray (NDArray 3 1 [[1], [2], [3::int]])
   \<and> shape1 (NDArray 2 1 [[10], [20::int]]) = 1
   \<and> shape1 (NDArray 3 1 [[1], [2], [3::int]]) = 1
   \<and> (1::nat) \<le> shape0 (NDArray 2 1 [[10], [20::int]])
   \<and> (1::nat) \<le> shape0 (NDArray 3 1 [[1], [2], [3::int]])
   \<and> uniform_block_expansion (NDArray 2 1 [[10], [20::int]]) 3 1
        (NDArray 6 1 [[10], [10], [10], [20], [20], [20]])
   \<and> uniform_block_expansion (NDArray 3 1 [[1], [2], [3::int]]) 2 1
        (NDArray 6 1 [[1], [1], [2], [2], [3], [3]])
   \<and> elementwise_sum (NDArray 6 1 [[10], [10], [10], [20], [20], [20::int]])
        (NDArray 6 1 [[1], [1], [2], [2], [3], [3]])
        (NDArray 6 1 [[11], [11], [12], [22], [23], [23]])"
proof -
  let ?V1 = "NDArray 2 1 [[10], [20::int]]"
  let ?V2 = "NDArray 3 1 [[1], [2], [3::int]]"
  have h: "wf_ndarray ?V1" "wf_ndarray ?V2" "shape1 ?V1 = 1" "shape1 ?V2 = 1"
    "1 \<le> shape0 ?V1" "1 \<le> shape0 ?V2"
    by (simp_all add: wf_ndarray_def)
  from stp_addition_structure [OF h] obtain r a b
    where run: "stp_addition_stepwise ?V1 ?V2 = Inr r"
      and fac: "alpha_add r = int a" "beta_add r = int b"
      and blk: "uniform_block_expansion ?V1 a 1 (V1_kron r)"
        "uniform_block_expansion ?V2 b 1 (V2_kron r)"
      and sum: "elementwise_sum (V1_kron r) (V2_kron r) (Result_add r)"
    by blast
  from run have r: "Inr r = stp_addition_stepwise ?V1 ?V2" by (rule sym)
  note r' = r [unfolded addition_scenario_int, THEN Inr_inject]
  from fac have "a = 3" "b = 2"
    unfolding r' by simp_all
  with blk sum h show ?thesis
    unfolding r' by simp
qed

text \<open>
  Claim C8. For column vectors of positive lengths, the generalized addition of \<open>V1\<close> and
  \<open>V2\<close> and that of \<open>V2\<close> and \<open>V1\<close> both return, with the same result; the two
  expansion factors, and the two expanded vectors, are exchanged.
\<close>

theorem stp_addition_commutes:
  assumes "wf_ndarray V1" and "wf_ndarray V2"
    and "shape1 V1 = 1" and "shape1 V2 = 1"
    and "1 \<le> shape0 V1" and "1 \<le> shape0 V2"
  shows "\<exists>r r'. stp_addition_stepwise V1 V2 = Inr r \<and> stp_addition_stepwise V2 V1 = Inr r'
           \<and> Result_add r = Result_add r'
           \<and> LCM_add r = LCM_add r'
           \<and> alpha_add r = beta_add r' \<and> beta_add r = alpha_add r'
           \<and> V1_kron r = V2_kron r' \<and> V2_kron r = V1_kron r'"
proof -
  define L where "L = lcm (shape0 V1) (shape0 V2)"
  define a where "a = L div shape0 V1"
  define b where "b = L div shape0 V2"
  define V1k where "V1k = np_kron V1 (tabulate a 1 (\<lambda>i j. 1))"
  define V2k where "V2k = np_kron V2 (tabulate b 1 (\<lambda>i j. 1))"
  have L': "lcm (shape0 V2) (shape0 V1) = L"
    by (simp add: L_def lcm.commute)
  have "shape0 V1k = shape0 V2k" "shape1 V1k = shape1 V2k"
    using assms(3,4) by (simp_all add: V1k_def V2k_def a_def b_def L_def)
  then obtain R where R: "np_add V1k V2k = Inr R"
    using np_add_same_shape [of V1k V2k] by auto
  then have R': "np_add V2k V1k = Inr R"
    by (simp add: np_add_commute)
  have "stp_addition_stepwise V1 V2 =
      Inr \<lparr>LCM_add = int L, alpha_add = int a, beta_add = int b,
           V1_kron = V1k, V2_kron = V2k, Result_add = R\<rparr>"
    using assms(5,6) R
    by (simp add: stp_addition_stepwise_unfold V1k_def V2k_def a_def b_def L_def)
  moreover have "stp_addition_stepwise V2 V1 =
      Inr \<lparr>LCM_add = int L, alpha_add = int b, beta_add = int a,
           V1_kron = V2k, V2_kron = V1k, Result_add = R\<rparr>"
    using assms(5,6) R'
    by (simp add: stp_addition_stepwise_unfold L' V1k_def V2k_def a_def b_def)
  ultimately show ?thesis by simp
qed

theorem stp_addition_commutes_witness:
  "wf_ndarray (NDArray 2 1 [[1], [2::int]])
   \<and> wf_ndarray (NDArray 4 1 [[5], [6], [7], [8::int]])
   \<and> shape1 (NDArray 2 1 [[1], [2::int]]) = 1
   \<and> shape1 (NDArray 4 1 [[5], [6], [7], [8::int]]) = 1
   \<and> (1::nat) \<le> shape0 (NDArray 2 1 [[1], [2::int]])
   \<and> (1::nat) \<le> shape0 (NDArray 4 1 [[5], [6], [7], [8::int]])
   \<and> Result_add (projr (stp_addition_stepwise (NDArray 2 1 [[1], [2::int]])
                          (NDArray 4 1 [[5], [6], [7], [8]])))
     = Result_add (projr (stp_addition_stepwise (NDArray 4 1 [[5], [6], [7], [8::int]])
                          (NDArray 2 1 [[1], [2]])))
   \<and> alpha_add (projr (stp_addition_stepwise (NDArray 2 1 [[1], [2::int]])
                          (NDArray 4 1 [[5], [6], [7], [8]])))
     = beta_add (projr (stp_addition_stepwise (NDArray 4 1 [[5], [6], [7], [8::int]])
                          (NDArray 2 1 [[1], [2]])))"
  using stp_addition_commutes [of "NDArray 2 1 [[1], [2::int]]" "NDArray 4 1 [[5], [6], [7], [8]]"]
  by (auto simp: wf_ndarray_def)

text \<open>
  Claim C9. On \<open>V1 = [[10], [20]]\<close> and \<open>V2 = [[1], [2], [3]]\<close> the generalized addition
  returns \<open>L = 6\<close>, \<open>alpha = 3\<close>, \<open>beta = 2\<close>, the expansions
  \<open>[10, 10, 10, 20, 20, 20]\<close> and \<open>[1, 1, 2, 2, 3, 3]\<close> as columns, and the result
  \<open>[11, 11, 12, 22, 23, 23]\<close> as a column, whatever the ring of the entries.
\<close>

theorem stp_addition_scenario:
  "stp_addition_stepwise (NDArray 2 1 [[10], [20]]) (NDArray 3 1 [[1], [2], [3]])
   = Inr \<lparr>LCM_add = 6, alpha_add = 3, beta_add = 2,
          V1_kron = NDArray 6 1 [[10], [10], [10], [20], [20], [20::'a::comm_ring_1]],
          V2_kron = NDArray 6 1 [[1], [1], [2], [2], [3], [3]],
          Result_add = NDArray 6 1 [[11], [11], [12], [22], [23], [23]]\<rparr>"
  by (simp add: stp_addition_stepwise_def reconcile_def get_lcm_is_lcm lcm_2_3 py_floordiv_def
        np_ones_def np_kron_def np_add_def broadcast_dim_def tabulate_def entry_def upt_6)

section \<open>The generalized addition of matrices\<close>

lemma mode_b_addition_unfold:
  assumes "0 < shape0 A" and "0 < shape1 A" and "0 < shape0 B" and "0 < shape1 B"
  defines "Lr \<equiv> lcm (shape0 A) (shape0 B)" and "Lc \<equiv> lcm (shape1 A) (shape1 B)"
  defines "ar \<equiv> Lr div shape0 A" and "ac \<equiv> Lc div shape1 A"
  defines "br \<equiv> Lr div shape0 B" and "bc \<equiv> Lc div shape1 B"
  defines "Ae \<equiv> np_kron A (tabulate ar ac (\<lambda>i j. 1))"
  defines "Be \<equiv> np_kron B (tabulate br bc (\<lambda>i j. 1))"
  shows "mode_b_addition (int (shape0 A)) (int (shape1 A)) (int (shape0 B)) (int (shape1 B)) A B =
           and_then (np_add Ae Be)
             (\<lambda>R. Inr \<lparr>lcm_row = int Lr, lcm_col = int Lc, alpha_r = int ar, alpha_c = int ac,
                        beta_r = int br, beta_c = int bc, A_exp = Ae, B_exp = Be, Res_add = R\<rparr>)"
proof -
  have g: "get_lcm (int (shape0 A)) (int (shape0 B)) = Inr (int Lr)"
    "get_lcm (int (shape1 A)) (int (shape1 B)) = Inr (int Lc)"
    unfolding Lr_def Lc_def by (rule get_lcm_nat)+
  have f: "py_floordiv (int Lr) (int (shape0 A)) = Inr (int ar)"
    "py_floordiv (int Lc) (int (shape1 A)) = Inr (int ac)"
    "py_floordiv (int Lr) (int (shape0 B)) = Inr (int br)"
    "py_floordiv (int Lc) (int (shape1 B)) = Inr (int bc)"
    unfolding ar_def ac_def br_def bc_def using assms(1-4) by (simp_all only: py_floordiv_nat)
  show ?thesis
    by (simp only: mode_b_addition_def Let_def g f np_ones_nat and_then.simps Ae_def Be_def)
qed

lemma mode_b_scenario:
  "mode_b_addition 2 2 1 2 (NDArray 2 2 [[1, 2], [3, 4::int]]) (NDArray 1 2 [[10, 20]])
   = Inr \<lparr>lcm_row = 2, lcm_col = 2, alpha_r = 1, alpha_c = 1, beta_r = 2, beta_c = 1,
          A_exp = NDArray 2 2 [[1, 2], [3, 4]],
          B_exp = NDArray 2 2 [[10, 20], [10, 20]],
          Res_add = NDArray 2 2 [[11, 22], [13, 24]]\<rparr>"
  by code_simp

lemma np_add_scenario:
  "np_add (NDArray 1 2 [[1, 2::int]]) (NDArray 1 2 [[3, 4]]) = Inr (NDArray 1 2 [[4, 6]])"
  by code_simp

text \<open>
  Claim C5. For matrices \<open>A\<close> and \<open>B\<close> with all dimensions \<open>\<ge> 1\<close>, the matrix addition
  of Mode B reconciles the row counts and the column counts separately
  (\<open>lcm_row\<close>, \<open>lcm_col\<close>), expands each operand by the all-ones block of its row factor
  by its column factor, so that each entry becomes a constant block, and returns the
  elementwise sum of the two expansions, all three of shape \<open>lcm_row \<times> lcm_col\<close>. When
  the two shapes are equal, the four factors are 1, the expansions are \<open>A\<close> and \<open>B\<close>,
  and the result is the elementwise sum \<open>A + B\<close>.
\<close>

theorem mode_b_addition_structure:
  assumes "wf_ndarray A" and "wf_ndarray B"
    and "1 \<le> shape0 A" and "1 \<le> shape1 A" and "1 \<le> shape0 B" and "1 \<le> shape1 B"
  shows "\<exists>r ar ac br bc.
           mode_b_addition (int (shape0 A)) (int (shape1 A)) (int (shape0 B)) (int (shape1 B)) A B
             = Inr r
           \<and> lcm_row r = lcm (int (shape0 A)) (int (shape0 B))
           \<and> lcm_col r = lcm (int (shape1 A)) (int (shape1 B))
           \<and> alpha_r r = int ar \<and> alpha_c r = int ac \<and> beta_r r = int br \<and> beta_c r = int bc
           \<and> alpha_r r = lcm_row r div int (shape0 A) \<and> alpha_c r = lcm_col r div int (shape1 A)
           \<and> beta_r r = lcm_row r div int (shape0 B) \<and> beta_c r = lcm_col r div int (shape1 B)
           \<and> uniform_block_expansion A ar ac (A_exp r)
           \<and> uniform_block_expansion B br bc (B_exp r)
           \<and> int (shape0 (A_exp r)) = lcm_row r \<and> int (shape1 (A_exp r)) = lcm_col r
           \<and> int (shape0 (B_exp r)) = lcm_row r \<and> int (shape1 (B_exp r)) = lcm_col r
           \<and> np_add (A_exp r) (B_exp r) = Inr (Res_add r)
           \<and> elementwise_sum (A_exp r) (B_exp r) (Res_add r)
           \<and> int (shape0 (Res_add r)) = lcm_row r \<and> int (shape1 (Res_add r)) = lcm_col r
           \<and> (shape0 A = shape0 B \<and> shape1 A = shape1 B \<longrightarrow>
                alpha_r r = 1 \<and> alpha_c r = 1 \<and> beta_r r = 1 \<and> beta_c r = 1
                \<and> A_exp r = A \<and> B_exp r = B
                \<and> np_add A B = Inr (Res_add r) \<and> elementwise_sum A B (Res_add r))"
proof -
  define Lr where "Lr = lcm (shape0 A) (shape0 B)"
  define Lc where "Lc = lcm (shape1 A) (shape1 B)"
  define ar where "ar = Lr div shape0 A"
  define ac where "ac = Lc div shape1 A"
  define br where "br = Lr div shape0 B"
  define bc where "bc = Lc div shape1 B"
  define Ae where "Ae = np_kron A (tabulate ar ac (\<lambda>i j. 1))"
  define Be where "Be = np_kron B (tabulate br bc (\<lambda>i j. 1))"
  have mul: "shape0 A * ar = Lr" "shape1 A * ac = Lc" "shape0 B * br = Lr" "shape1 B * bc = Lc"
    by (simp_all add: ar_def ac_def br_def bc_def Lr_def Lc_def)
  have shA: "shape0 Ae = Lr" "shape1 Ae = Lc" and shB: "shape0 Be = Lr" "shape1 Be = Lc"
    by (simp_all add: Ae_def Be_def mul)
  then obtain R where R: "np_add Ae Be = Inr R" "elementwise_sum Ae Be R"
    using np_add_same_shape [of Ae Be] by auto
  define r where "r = \<lparr>lcm_row = int Lr, lcm_col = int Lc, alpha_r = int ar, alpha_c = int ac,
                        beta_r = int br, beta_c = int bc, A_exp = Ae, B_exp = Be, Res_add = R\<rparr>"
  have run: "mode_b_addition (int (shape0 A)) (int (shape1 A)) (int (shape0 B)) (int (shape1 B)) A B
             = Inr r"
    using assms(3-6) R(1)
    by (simp add: mode_b_addition_unfold r_def Ae_def Be_def ar_def ac_def br_def bc_def
        Lr_def Lc_def)
  have uA: "uniform_block_expansion A ar ac Ae" and uB: "uniform_block_expansion B br bc Be"
    unfolding Ae_def Be_def by (rule kron_ones_blocks)+
  have lcm: "int Lr = lcm (int (shape0 A)) (int (shape0 B))"
    "int Lc = lcm (int (shape1 A)) (int (shape1 B))"
    by (simp_all add: Lr_def Lc_def)
  have fac: "int ar = int Lr div int (shape0 A)" "int ac = int Lc div int (shape1 A)"
    "int br = int Lr div int (shape0 B)" "int bc = int Lc div int (shape1 B)"
    by (simp_all add: ar_def ac_def br_def bc_def zdiv_int)
  have shR: "shape0 R = Lr" "shape1 R = Lc"
    using R(2) shA by (simp_all add: elementwise_sum_def)
  have same: "int ar = 1 \<and> int ac = 1 \<and> int br = 1 \<and> int bc = 1 \<and> Ae = A \<and> Be = B
              \<and> np_add A B = Inr R \<and> elementwise_sum A B R"
    if eq: "shape0 A = shape0 B \<and> shape1 A = shape1 B"
  proof -
    have one: "ar = 1" "ac = 1" "br = 1" "bc = 1"
      using eq assms(3-6) by (simp_all add: ar_def ac_def br_def bc_def Lr_def Lc_def)
    have "Ae = A" "Be = B"
      using assms(1,2) by (simp_all only: Ae_def Be_def one np_kron_unit)
    with R one show ?thesis by simp
  qed
  show ?thesis
  proof (intro exI conjI)
    show "mode_b_addition (int (shape0 A)) (int (shape1 A)) (int (shape0 B)) (int (shape1 B)) A B
          = Inr r" by (rule run)
    show "alpha_r r = int ar" "alpha_c r = int ac" "beta_r r = int br" "beta_c r = int bc"
      by (simp_all add: r_def)
    show "shape0 A = shape0 B \<and> shape1 A = shape1 B \<longrightarrow>
            alpha_r r = 1 \<and> alpha_c r = 1 \<and> beta_r r = 1 \<and> beta_c r = 1
            \<and> A_exp r = A \<and> B_exp r = B
            \<and> np_add A B = Inr (Res_add r) \<and> elementwise_sum A B (Res_add r)"
      using same by (simp add: r_def)
  qed (use lcm fac uA uB shA shB shR R in \<open>simp_all add: r_def\<close>)
qed

theorem mode_b_addition_structure_witness:
  "wf_ndarray (NDArray 2 2 [[1, 2], [3, 4::int]])
   \<and> wf_ndarray (NDArray 1 2 [[10, 20::int]])
   \<and> (1::nat) \<le> shape0 (NDArray 2 2 [[1, 2], [3, 4::int]])
   \<and> (1::nat) \<le> shape1 (NDArray 2 2 [[1, 2], [3, 4::int]])
   \<and> (1::nat) \<le> shape0 (NDArray 1 2 [[10, 20::int]])
   \<and> (1::nat) \<le> shape1 (NDArray 1 2 [[10, 20::int]])
   \<and> uniform_block_expansion (NDArray 1 2 [[10, 20::int]]) 2 1 (NDArray 2 2 [[10, 20], [10, 20]])
   \<and> elementwise_sum (NDArray 2 2 [[1, 2], [3, 4::int]]) (NDArray 2 2 [[10, 20], [10, 20]])
        (NDArray 2 2 [[11, 22], [13, 24]])
   \<and> wf_ndarray (NDArray 1 2 [[1, 2::int]]) \<and> wf_ndarray (NDArray 1 2 [[3, 4::int]])
   \<and> shape0 (NDArray 1 2 [[1, 2::int]]) = shape0 (NDArray 1 2 [[3, 4::int]])
   \<and> shape1 (NDArray 1 2 [[1, 2::int]]) = shape1 (NDArray 1 2 [[3, 4::int]])
   \<and> elementwise_sum (NDArray 1 2 [[1, 2::int]]) (NDArray 1 2 [[3, 4]]) (NDArray 1 2 [[4, 6]])"
proof -
  let ?A = "NDArray 2 2 [[1, 2], [3, 4::int]]"
  let ?B = "NDArray 1 2 [[10, 20::int]]"
  let ?C = "NDArray 1 2 [[1, 2::int]]"
  let ?D = "NDArray 1 2 [[3, 4::int]]"
  have h: "wf_ndarray ?A" "wf_ndarray ?B"
    "1 \<le> shape0 ?A" "1 \<le> shape1 ?A" "1 \<le> shape0 ?B" "1 \<le> shape1 ?B"
    by (simp_all add: wf_ndarray_def)
  have h': "wf_ndarray ?C" "wf_ndarray ?D"
    "1 \<le> shape0 ?C" "1 \<le> shape1 ?C" "1 \<le> shape0 ?D" "1 \<le> shape1 ?D"
    by (simp_all add: wf_ndarray_def)
  have same: "shape0 ?C = shape0 ?D \<and> shape1 ?C = shape1 ?D"
    by simp
  from mode_b_addition_structure [OF h] obtain r br bc
    where run: "mode_b_addition (int (shape0 ?A)) (int (shape1 ?A))
                  (int (shape0 ?B)) (int (shape1 ?B)) ?A ?B = Inr r"
      and fac: "beta_r r = int br" "beta_c r = int bc"
      and blk: "uniform_block_expansion ?B br bc (B_exp r)"
      and sum: "elementwise_sum (A_exp r) (B_exp r) (Res_add r)"
    by blast
  have args: "int (shape0 ?A) = 2" "int (shape1 ?A) = 2" "int (shape0 ?B) = 1" "int (shape1 ?B) = 2"
    by simp_all
  from run have r: "Inr r = mode_b_addition 2 2 1 2 ?A ?B"
    unfolding args by (rule sym)
  note r' = r [unfolded mode_b_scenario, THEN Inr_inject]
  from fac have f: "br = 2" "bc = 1"
    unfolding r' by simp_all
  from mode_b_addition_structure [OF h'] obtain s :: "int matrix_addition_steps"
    where "shape0 ?C = shape0 ?D \<and> shape1 ?C = shape1 ?D \<longrightarrow>
             alpha_r s = 1 \<and> alpha_c s = 1 \<and> beta_r s = 1 \<and> beta_c s = 1
             \<and> A_exp s = ?C \<and> B_exp s = ?D
             \<and> np_add ?C ?D = Inr (Res_add s) \<and> elementwise_sum ?C ?D (Res_add s)"
    by blast
  with same have add: "np_add ?C ?D = Inr (Res_add s)"
    and sum': "elementwise_sum ?C ?D (Res_add s)"
    by blast+
  from add have s: "Res_add s = NDArray 1 2 [[4, 6]]"
    unfolding np_add_scenario by simp
  from blk sum sum' h h' same show ?thesis
    unfolding r' s f by simp
qed

end
